theory Spec2Isabelle
  imports Complex_Main "HOL-Library.Word" "HOL-Library.Sublist"
begin

section \<open>Errors\<close>

text \<open>
  The Python exceptions the notebooks can raise. Every raise of the source is a branch of
  the model that returns \<open>Inl\<close> of one of them.
\<close>

datatype py_error =
    AssertionError
  | NameError string
  | KeyError string
  | AttributeError
  | FileNotFoundError
  | RuntimeError
  | ValueError
  | TypeError

section \<open>Modules and their parameters\<close>

text \<open>
  A parameter tensor of a layer is described by its shape and by the last in-place
  initialiser that wrote it: the draw \<open>torch.nn\<close> makes when the layer is built
  (\<open>library_default\<close>), a draw of \<open>nn.init.kaiming_normal_\<close> (with the \<open>nonlinearity\<close>
  that fixes its gain), or \<open>fill_(c)\<close>, which makes every element \<open>c\<close>.
\<close>

datatype nonlinearity = relu | leaky_relu

datatype contents = library_default | kaiming_normal nonlinearity | filled rat

record param =
  shape :: "nat list"
  contents :: contents

text \<open>The elements of a parameter, as far as they are determined: a random draw is not.\<close>

definition elements :: "param \<Rightarrow> rat list option" where
  "elements t =
     (case contents t of
        filled c \<Rightarrow> Some (replicate (prod_list (shape t)) c)
      | _ \<Rightarrow> None)"

text \<open>
  The layer classes of \<open>torch.nn\<close> that the two networks use, with the hyperparameters and
  parameters their constructors store.
\<close>

datatype layer =
    Conv2d (in_channels: nat) (out_channels: nat) (kernel_size: nat) (stride: nat)
      (padding: nat) (weight: param) (bias: param)
  | Linear (in_features: nat) (out_features: nat) (weight: param) (bias: param)
  | MaxPool2d (kernel_size: nat) (stride: nat)
  | Dropout (drop_p: rat)

text \<open>\<open>nn.Conv2d(i, o, k, s, p)\<close>, \<open>nn.Linear(i, o)\<close>, \<open>nn.MaxPool2d(k, s)\<close>, \<open>nn.Dropout(p)\<close>.\<close>

definition nn_Conv2d :: "nat \<Rightarrow> nat \<Rightarrow> nat \<Rightarrow> nat \<Rightarrow> nat \<Rightarrow> layer" where
  "nn_Conv2d i out k s pd =
     Conv2d i out k s pd
       \<lparr>shape = [out, i, k, k], contents = library_default\<rparr>
       \<lparr>shape = [out], contents = library_default\<rparr>"

definition nn_Linear :: "nat \<Rightarrow> nat \<Rightarrow> layer" where
  "nn_Linear i out =
     Linear i out
       \<lparr>shape = [out, i], contents = library_default\<rparr>
       \<lparr>shape = [out], contents = library_default\<rparr>"

definition nn_MaxPool2d :: "nat \<Rightarrow> nat \<Rightarrow> layer" where
  "nn_MaxPool2d k s = MaxPool2d k s"

definition nn_Dropout :: "rat \<Rightarrow> layer" where
  "nn_Dropout pr = Dropout pr"

text \<open>\<open>nn.init.kaiming_normal_(w, nonlinearity=nl)\<close> and \<open>b.data.fill_(c)\<close>, both in place.\<close>

definition init_kaiming_normal :: "nonlinearity \<Rightarrow> param \<Rightarrow> param" where
  "init_kaiming_normal nl w = w\<lparr>contents := kaiming_normal nl\<rparr>"

definition data_fill :: "rat \<Rightarrow> param \<Rightarrow> param" where
  "data_fill c b = b\<lparr>contents := filled c\<rparr>"

text \<open>
  The attribute names under which the two classes register their layers, and a network:
  its mode flag (\<open>nn.Module.training\<close>, set by \<open>train()\<close> and cleared by \<open>eval()\<close>) and
  its registered layers in registration order.
\<close>

datatype attr = conv1 | conv2 | pool1 | dropout1 | fc1 | fc2

record net =
  training :: bool
  children :: "(attr \<times> layer) list"

text \<open>
  The body of the initialisation loop of both constructors,
  \<^verbatim>\<open>if type(m) in [nn.Conv2d, nn.Linear]:
      nn.init.kaiming_normal_(m.weight, ...); m.bias.data.fill_(0)\<close>
  \<open>self.modules()\<close> yields the network itself first, whose type is neither of the two,
  and then the registered layers.
\<close>

fun init_module :: "nonlinearity \<Rightarrow> layer \<Rightarrow> layer" where
  "init_module nl (Conv2d i out k s pd w b) =
     Conv2d i out k s pd (init_kaiming_normal nl w) (data_fill 0 b)"
| "init_module nl (Linear i out w b) = Linear i out (init_kaiming_normal nl w) (data_fill 0 b)"
| "init_module nl m = m"

text \<open>
  \<open>SimpleNet.__init__(num_classes)\<close> passes \<open>nonlinearity='relu'\<close>; \<open>LeNet.__init__()\<close>
  leaves the default of \<open>kaiming_normal_\<close>, \<open>'leaky_relu'\<close>. A new module is in training
  mode.
\<close>

definition SimpleNet_init :: "nat \<Rightarrow> net" where
  "SimpleNet_init num_classes =
     \<lparr>training = True,
      children = map (apsnd (init_module relu))
        [(conv1, nn_Conv2d 3 64 11 4 2),
         (pool1, nn_MaxPool2d 3 2),
         (dropout1, nn_Dropout (3 / 10)),
         (fc1, nn_Linear (64 * 2 * 2) num_classes)]\<rparr>"

definition LeNet_init :: net where
  "LeNet_init =
     \<lparr>training = True,
      children = map (apsnd (init_module leaky_relu))
        [(conv1, nn_Conv2d 1 20 5 1 0),
         (conv2, nn_Conv2d 20 50 5 1 0),
         (fc1, nn_Linear (4 * 4 * 50) 500),
         (fc2, nn_Linear 500 10)]\<rparr>"

text \<open>\<open>model.train()\<close> and \<open>model.eval()\<close>.\<close>

definition train :: "net \<Rightarrow> net" where
  "train self = self\<lparr>training := True\<rparr>"

definition eval :: "net \<Rightarrow> net" where
  "eval self = self\<lparr>training := False\<rparr>"

text \<open>The layers of a network that carry parameters: those of type Conv2d or Linear.\<close>

fun has_params :: "layer \<Rightarrow> bool" where
  "has_params (Conv2d i out k s pd w b) = True"
| "has_params (Linear i out w b) = True"
| "has_params m = False"

section \<open>The forward pass\<close>

text \<open>
  The tensor operations are the library's, not the repository's, so the forward pass takes
  them as a parameter: \<open>'t\<close> is the type of tensors and \<open>'g\<close> the state of the random
  number generator. An operation that can raise returns a sum.
\<close>

record ('t, 'g) torch_ops =
  conv2d :: "layer \<Rightarrow> 't \<Rightarrow> py_error + 't"
  linear :: "layer \<Rightarrow> 't \<Rightarrow> py_error + 't"
  max_pool2d :: "nat \<Rightarrow> nat \<Rightarrow> 't \<Rightarrow> py_error + 't"
  F_relu :: "'t \<Rightarrow> 't"
  view :: "nat \<Rightarrow> 't \<Rightarrow> py_error + 't"
  dropout :: "rat \<Rightarrow> 't \<times> 'g \<Rightarrow> 't \<times> 'g"
  log_softmax :: "'t \<Rightarrow> py_error + 't"

text \<open>
  Calling a layer. Convolution, linear map and pooling do not look at the mode. Modelled
  from the spec: \<open>nn.Dropout\<close>, whose code is the library's: in training mode it is
  stochastic (it draws from the generator), in evaluation mode it is the identity and
  draws nothing.
\<close>

fun layer_forward :: "('t, 'g) torch_ops \<Rightarrow> bool \<Rightarrow> layer \<Rightarrow> 't \<times> 'g \<Rightarrow> py_error + 't \<times> 'g" where
  "layer_forward K tr (Conv2d i out k s pd w b) (x, g) =
     map_sum id (\<lambda>y. (y, g)) (conv2d K (Conv2d i out k s pd w b) x)"
| "layer_forward K tr (Linear i out w b) (x, g) =
     map_sum id (\<lambda>y. (y, g)) (linear K (Linear i out w b) x)"
| "layer_forward K tr (MaxPool2d k s) (x, g) =
     map_sum id (\<lambda>y. (y, g)) (max_pool2d K k s x)"
| "layer_forward K tr (Dropout pr) (x, g) =
     (if tr then Inr (dropout K pr (x, g)) else Inr (x, g))"

text \<open>\<open>self.a(x)\<close>: look the attribute up and call the layer in the network's mode.\<close>

definition call :: "('t, 'g) torch_ops \<Rightarrow> net \<Rightarrow> attr \<Rightarrow> 't \<times> 'g \<Rightarrow> py_error + 't \<times> 'g" where
  "call K self a xg =
     (case map_of (children self) a of
        None \<Rightarrow> Inl AttributeError
      | Some m \<Rightarrow> layer_forward K (training self) m xg)"

text \<open>A functional that cannot raise, and one that can; neither touches the generator.\<close>

definition pure_op :: "('t \<Rightarrow> 't) \<Rightarrow> 't \<times> 'g \<Rightarrow> py_error + 't \<times> 'g" where
  "pure_op f xg = Inr (f (fst xg), snd xg)"

definition raising_op :: "('t \<Rightarrow> py_error + 't) \<Rightarrow> 't \<times> 'g \<Rightarrow> py_error + 't \<times> 'g" where
  "raising_op f xg = map_sum id (\<lambda>y. (y, snd xg)) (f (fst xg))"

text \<open>The statements of a function body in sequence; the first raise ends it.\<close>

fun run_steps :: "('s \<Rightarrow> py_error + 's) list \<Rightarrow> 's \<Rightarrow> py_error + 's" where
  "run_steps [] s = Inr s"
| "run_steps (f # fs) s = (case f s of Inl e \<Rightarrow> Inl e | Inr s' \<Rightarrow> run_steps fs s')"

text \<open>
  \<^verbatim>\<open>def forward(self, x):              # SimpleNet
      x = self.conv1(x)
      x = F.relu(x)
      x = self.pool1(x)
      x = x.view(-1, 64*2*2)
      x = self.dropout1(x)
      x = self.fc1(x)
      return x\<close>
\<close>

definition SimpleNet_forward ::
  "('t, 'g) torch_ops \<Rightarrow> net \<Rightarrow> 't \<times> 'g \<Rightarrow> py_error + 't \<times> 'g" where
  "SimpleNet_forward K self =
     run_steps
       [call K self conv1,
        pure_op (F_relu K),
        call K self pool1,
        raising_op (view K (64 * 2 * 2)),
        call K self dropout1,
        call K self fc1]"

text \<open>
  \<^verbatim>\<open>def forward(self, x):              # LeNet
      x = F.relu(self.conv1(x))
      x = F.max_pool2d(x, 2, 2)
      x = F.relu(self.conv2(x))
      x = F.max_pool2d(x, 2, 2)
      x = x.view(-1, 4*4*50)
      x = F.relu(self.fc1(x))
      x = self.fc2(x)
      return F.log_softmax(x, dim=1)\<close>
\<close>

definition LeNet_forward ::
  "('t, 'g) torch_ops \<Rightarrow> net \<Rightarrow> 't \<times> 'g \<Rightarrow> py_error + 't \<times> 'g" where
  "LeNet_forward K self =
     run_steps
       [call K self conv1,
        pure_op (F_relu K),
        raising_op (max_pool2d K 2 2),
        call K self conv2,
        pure_op (F_relu K),
        raising_op (max_pool2d K 2 2),
        raising_op (view K (4 * 4 * 50)),
        call K self fc1,
        pure_op (F_relu K),
        call K self fc2,
        raising_op (log_softmax K)]"

text \<open>
  Two successive inferences on the same input: the second starts from the generator state
  the first one left. The result is the pair of outputs.
\<close>

definition infer_twice :: "('t \<times> 'g \<Rightarrow> py_error + 't \<times> 'g) \<Rightarrow> 't \<Rightarrow> 'g \<Rightarrow> py_error + 't \<times> 't" where
  "infer_twice fwd x g =
     (case fwd (x, g) of
        Inl e \<Rightarrow> Inl e
      | Inr (y1, g1) \<Rightarrow>
          (case fwd (x, g1) of
             Inl e \<Rightarrow> Inl e
           | Inr (y2, g2) \<Rightarrow> Inr (y1, y2)))"

text \<open>
  A step of a forward pass is independent of the generator when running it from another
  generator state changes nothing but the state it hands on, which is the one it was given.
\<close>

definition gen_free :: "('t \<times> 'g \<Rightarrow> py_error + 't \<times> 'g) \<Rightarrow> bool" where
  "gen_free f = (\<forall>x g g'. f (x, g') = map_sum id (\<lambda>r. (fst r, g')) (f (x, g)))"

section \<open>Tensor shapes\<close>

text \<open>
  The operations read on shapes alone: a tensor is its list of dimensions. The rules are
  the library's documented ones. A convolution or pooling window of size \<open>k\<close>, stride \<open>s\<close>
  and padding \<open>pd\<close> maps an extent \<open>h\<close> to \<open>(h + 2 pd - k) div s + 1\<close> and raises when the
  padded extent is smaller than the window; a convolution takes a batch \<open>[n, c, h, w]\<close>
  whose \<open>c\<close> is its \<open>in_channels\<close>.
\<close>

definition window :: "nat \<Rightarrow> nat \<Rightarrow> nat \<Rightarrow> nat \<Rightarrow> nat" where
  "window k s pd h = (h + 2 * pd - k) div s + 1"

fun shape_conv2d :: "layer \<Rightarrow> nat list \<Rightarrow> py_error + nat list" where
  "shape_conv2d m [n, c, h, w] =
     (if c = in_channels m \<and> 0 < stride m
         \<and> kernel_size m \<le> h + 2 * padding m \<and> kernel_size m \<le> w + 2 * padding m
      then Inr [n, out_channels m,
                window (kernel_size m) (stride m) (padding m) h,
                window (kernel_size m) (stride m) (padding m) w]
      else Inl RuntimeError)"
| "shape_conv2d m sh = Inl RuntimeError"

fun shape_max_pool2d :: "nat \<Rightarrow> nat \<Rightarrow> nat list \<Rightarrow> py_error + nat list" where
  "shape_max_pool2d k s [n, c, h, w] =
     (if 0 < s \<and> k \<le> h \<and> k \<le> w
      then Inr [n, c, window k s 0 h, window k s 0 w]
      else Inl RuntimeError)"
| "shape_max_pool2d k s [c, h, w] =
     (if 0 < s \<and> k \<le> h \<and> k \<le> w
      then Inr [c, window k s 0 h, window k s 0 w]
      else Inl RuntimeError)"
| "shape_max_pool2d k s sh = Inl RuntimeError"

text \<open>
  \<open>x.view(-1, k)\<close> keeps the number of elements and infers the leading dimension from it;
  it raises when the number is not a multiple of \<open>k\<close>. A tensor of no elements is viewed
  as \<open>[0, k]\<close>; only for \<open>k = 0\<close> can the leading dimension not be inferred.
\<close>

definition shape_view :: "nat \<Rightarrow> nat list \<Rightarrow> py_error + nat list" where
  "shape_view k sh =
     (if k = 0 \<or> prod_list sh mod k \<noteq> 0 then Inl RuntimeError
      else Inr [prod_list sh div k, k])"

text \<open>A linear layer maps the last dimension, which must be its \<open>in_features\<close>.\<close>

definition shape_linear :: "layer \<Rightarrow> nat list \<Rightarrow> py_error + nat list" where
  "shape_linear m sh =
     (if sh \<noteq> [] \<and> last sh = in_features m then Inr (butlast sh @ [out_features m])
      else Inl RuntimeError)"

text \<open>\<open>F.log_softmax(x, dim=1)\<close> keeps the shape and needs a dimension 1.\<close>

definition shape_log_softmax :: "nat list \<Rightarrow> py_error + nat list" where
  "shape_log_softmax sh = (if 2 \<le> length sh then Inr sh else Inl RuntimeError)"

definition shape_ops :: "(nat list, unit) torch_ops" where
  "shape_ops =
     \<lparr>conv2d = shape_conv2d,
      linear = shape_linear,
      max_pool2d = shape_max_pool2d,
      F_relu = (\<lambda>sh. sh),
      view = shape_view,
      dropout = (\<lambda>pr xg. xg),
      log_softmax = shape_log_softmax\<rparr>"

text \<open>The shape a network returns for a batch of a given shape.\<close>

definition SimpleNet_shape :: "net \<Rightarrow> nat list \<Rightarrow> py_error + nat list" where
  "SimpleNet_shape self sh = map_sum id fst (SimpleNet_forward shape_ops self (sh, ()))"

definition LeNet_shape :: "net \<Rightarrow> nat list \<Rightarrow> py_error + nat list" where
  "LeNet_shape self sh = map_sum id fst (LeNet_forward shape_ops self (sh, ()))"

text \<open>
  The extent of the feature map that reaches \<open>view\<close>, for an image extent \<open>h\<close>: after two
  5-wide convolutions, each followed by a 2-wide pooling of stride 2, in LeNet; after the
  11-wide convolution of stride 4 and padding 2 and the 3-wide pooling of stride 2 in
  SimpleNet.
\<close>

definition LeNet_extent :: "nat \<Rightarrow> nat" where
  "LeNet_extent h = window 2 2 0 (window 5 1 0 (window 2 2 0 (window 5 1 0 h)))"

definition SimpleNet_extent :: "nat \<Rightarrow> nat" where
  "SimpleNet_extent h = window 3 2 0 (window 11 4 2 h)"

section \<open>Dropout on values\<close>

text \<open>
  A reading of the operations on values, small enough to run: a tensor is the list of its
  elements and the generator is the list of masks it will draw. Modelled from the spec:
  \<open>F.dropout\<close> in training mode is stochastic; as the library documents it, the elements
  the drawn mask selects become zero and the others are scaled by \<open>1 / (1 - p)\<close>.
  The arithmetic of the other operations plays no part in what is shown with this reading,
  so they keep their input.
\<close>

fun mask_dropout :: "rat \<Rightarrow> rat list \<times> bool list list \<Rightarrow> rat list \<times> bool list list" where
  "mask_dropout pr (xs, []) = (xs, [])"
| "mask_dropout pr (xs, msk # g) =
     (map (\<lambda>(zero, v). if zero then 0 else v / (1 - pr)) (zip msk xs), g)"

definition mask_ops :: "(rat list, bool list list) torch_ops" where
  "mask_ops =
     \<lparr>conv2d = (\<lambda>m xs. Inr xs),
      linear = (\<lambda>m xs. Inr xs),
      max_pool2d = (\<lambda>k s xs. Inr xs),
      F_relu = (\<lambda>xs. xs),
      view = (\<lambda>k xs. Inr xs),
      dropout = mask_dropout,
      log_softmax = (\<lambda>xs. Inr xs)\<rparr>"

section \<open>The custom dataset\<close>

text \<open>
  The values a caller can pass for \<open>division\<close>, and the names that notebook 3 binds at
  module level (its imports, assignments, classes and loop variables). A name that is
  neither local nor among them nor a builtin raises \<open>NameError\<close>; \<open>np\<close> and \<open>dtype\<close> are
  no builtins and no locals of \<open>__init__\<close> (those are \<open>self\<close>, \<open>filename\<close>, \<open>division\<close>
  and \<open>f\<close>).
\<close>

datatype py_value = PyStr string | PyInt int | PyNone

definition notebook3_names :: "string list" where
  "notebook3_names =
     [''sys'', ''torch'', ''torchvision'', ''nn'', ''F'', ''optim'', ''transforms'', ''tqdm'',
      ''device'', ''transform'', ''MNIST_train'', ''MNIST_test'',
      ''train_data_loader'', ''test_data_loader'', ''CustomDataset'', ''LeNet'',
      ''epochs'', ''print_every'', ''model'', ''optimizer'',
      ''epoch'', ''batch_ind'', ''input_data'', ''target_data'', ''output'', ''loss'',
      ''train_log'', ''correct'', ''pbar'', ''pred'']"

text \<open>
  \<^verbatim>\<open>def __init__(self, filename, division):
      assert division in ['train', 'test']
      with np.load(filename) as f:
          self.x, self.y = f[f'x_{dtype}'], f[f'y_{dtype}']\<close>
  \<open>names\<close> are the global names bound when the constructor runs. Were \<open>np\<close> bound,
  \<open>np_load\<close> is what its \<open>load\<close> does on the file, and were \<open>dtype\<close> bound, \<open>dtype_str\<close>
  is how it prints. The result is the pair \<open>(self.x, self.y)\<close>.
\<close>

definition CustomDataset_init ::
  "string list \<Rightarrow> (py_value \<Rightarrow> py_error + (string \<rightharpoonup> 'a)) \<Rightarrow> string \<Rightarrow> py_value \<Rightarrow> py_value
     \<Rightarrow> py_error + 'a \<times> 'a" where
  "CustomDataset_init names np_load dtype_str filename division =
     (if division \<notin> set [PyStr ''train'', PyStr ''test''] then Inl AssertionError
      else if ''np'' \<notin> set names then Inl (NameError ''np'')
      else case np_load filename of
        Inl e \<Rightarrow> Inl e
      | Inr f \<Rightarrow>
          if ''dtype'' \<notin> set names then Inl (NameError ''dtype'')
          else case f (''x_'' @ dtype_str) of
            None \<Rightarrow> Inl (KeyError (''x_'' @ dtype_str))
          | Some xv \<Rightarrow>
              (case f (''y_'' @ dtype_str) of
                 None \<Rightarrow> Inl (KeyError (''y_'' @ dtype_str))
               | Some yv \<Rightarrow> Inr (xv, yv)))"

section \<open>Training and evaluating (notebook 3)\<close>

text \<open>
  \<open>model.parameters()\<close>: the weight and the bias of every layer that has them, in
  registration order.
\<close>

fun layer_parameters :: "layer \<Rightarrow> param list" where
  "layer_parameters (Conv2d i out k s pd w b) = [w, b]"
| "layer_parameters (Linear i out w b) = [w, b]"
| "layer_parameters m = []"

definition parameters :: "net \<Rightarrow> param list" where
  "parameters self = concat (map (\<lambda>(a, m). layer_parameters m) (children self))"

text \<open>
  An optimizer: its update rule, its learning rate, how many parameters it was given and
  its internal state (of a type \<open>'os\<close> the library owns). \<open>optim.Adam(params, lr)\<close> builds
  one; \<open>os0\<close> is the internal state the library starts it with.
\<close>

datatype update_rule = Adam

record 'os optimizer =
  opt_rule :: update_rule
  lr :: rat
  n_params :: nat
  ostate :: 'os

definition optim_Adam :: "nat \<Rightarrow> rat \<Rightarrow> 'os \<Rightarrow> 'os optimizer" where
  "optim_Adam n rate os0 = \<lparr>opt_rule = Adam, lr = rate, n_params = n, ostate = os0\<rparr>"

text \<open>
  The library operations of the two loops, again a parameter: \<open>'gr\<close> is the accumulated
  gradient state of the parameters. \<open>eq_sum pred target\<close> is
  \<open>pred.eq(target.view_as(pred)).sum()\<close>, and \<open>add_count c v\<close> is \<open>c + v\<close> for the counter
  \<open>correct\<close>, which starts as the integer 0 (\<open>None\<close>) and is a tensor from the first
  addition on.
\<close>

record ('t, 'gr, 'os) train_ops =
  to_device :: "'t \<Rightarrow> 't"
  cross_entropy :: "'t \<Rightarrow> 't \<Rightarrow> py_error + 't"
  zero_grad :: "'gr \<Rightarrow> 'gr"
  backward :: "'t \<Rightarrow> 'gr \<Rightarrow> py_error + 'gr"
  step :: "'os optimizer \<Rightarrow> net \<Rightarrow> 'gr \<Rightarrow> net \<times> 'os"
  argmax :: "'t \<Rightarrow> py_error + 't"
  eq_sum :: "'t \<Rightarrow> 't \<Rightarrow> py_error + 't"
  add_count :: "'t option \<Rightarrow> 't \<Rightarrow> 't"

text \<open>
  What the loops do to the outside, in the order they do it: one event per library call of
  the training loop, \<open>Print epoch batch_ind\<close> for a progress line and \<open>Newline\<close> for the
  \<open>print()\<close> that ends an epoch.
\<close>

datatype event =
    To_device
  | Forward
  | Loss
  | Zero_grad
  | Backward
  | Step update_rule rat
  | Print nat nat
  | Newline

text \<open>The global variables of notebook 3 that the two loops read or write.\<close>

record ('t, 'g, 'gr, 'os) notebook3 =
  model :: net
  optimizer :: "'os optimizer"
  grads :: 'gr
  rng :: 'g
  trace :: "event list"
  correct :: "'t option"
  pbar :: nat

definition log :: "event \<Rightarrow> ('t, 'g, 'gr, 'os) notebook3 \<Rightarrow> ('t, 'g, 'gr, 'os) notebook3" where
  "log e s = s\<lparr>trace := trace s @ [e]\<rparr>"

definition epochs :: nat where
  "epochs = 1"

definition print_every :: nat where
  "print_every = 1"

text \<open>
  A \<open>for\<close> loop whose body can raise: the state when the loop ends, and the exception that
  ended it, if one did.
\<close>

fun for_each :: "('s \<Rightarrow> 'a \<Rightarrow> 's \<times> py_error option) \<Rightarrow> 's \<Rightarrow> 'a list \<Rightarrow> 's \<times> py_error option" where
  "for_each body s [] = (s, None)"
| "for_each body s (a # as) =
     (case body s a of
        (s', None) \<Rightarrow> for_each body s' as
      | (s', Some e) \<Rightarrow> (s', Some e))"

text \<open>
  The body of the inner training loop:
  \<^verbatim>\<open>input_data, target_data = input_data.to(device), target_data.to(device)
  output = model(input_data)
  loss = F.cross_entropy(output, target_data)
  optimizer.zero_grad()
  loss.backward()
  optimizer.step()
  if batch_ind % print_every == 0:
      ...; print(train_log, end='\r'); sys.stdout.flush()\<close>
\<close>

definition train_batch ::
  "('t, 'g) torch_ops \<Rightarrow> ('t, 'gr, 'os) train_ops \<Rightarrow> nat \<Rightarrow> ('t, 'g, 'gr, 'os) notebook3
     \<Rightarrow> nat \<times> 't \<times> 't \<Rightarrow> ('t, 'g, 'gr, 'os) notebook3 \<times> py_error option" where
  "train_batch K A epoch s0 b =
     (case b of (batch_ind, input_data0, target_data0) \<Rightarrow>
        let s1 = log To_device s0;
            input_data = to_device A input_data0;
            s2 = log To_device s1;
            target_data = to_device A target_data0;
            s3 = log Forward s2
        in case LeNet_forward K (model s3) (input_data, rng s3) of
             Inl e \<Rightarrow> (s3, Some e)
           | Inr (output, g) \<Rightarrow>
               let s4 = log Loss (s3\<lparr>rng := g\<rparr>)
               in case cross_entropy A output target_data of
                    Inl e \<Rightarrow> (s4, Some e)
                  | Inr loss \<Rightarrow>
                      let s5 = (log Zero_grad s4)\<lparr>grads := zero_grad A (grads s4)\<rparr>;
                          s6 = log Backward s5
                      in case backward A loss (grads s6) of
                           Inl e \<Rightarrow> (s6, Some e)
                         | Inr gr \<Rightarrow>
                             let s7 = log (Step (opt_rule (optimizer s6)) (lr (optimizer s6)))
                                        (s6\<lparr>grads := gr\<rparr>);
                                 upd = step A (optimizer s7) (model s7) (grads s7);
                                 s8 = s7\<lparr>model := fst upd,
                                         optimizer := (optimizer s7)\<lparr>ostate := snd upd\<rparr>\<rparr>
                             in (if batch_ind mod print_every = 0
                                 then log (Print epoch batch_ind) s8 else s8, None))"

text \<open>
  \<^verbatim>\<open>for epoch in range(epochs):
      for batch_ind, (input_data, target_data) in enumerate(train_data_loader):
          ...
      print()\<close>
  The loader shuffles, so the batches it yields depend on the epoch: \<open>loader epoch\<close>.
\<close>

definition train_epoch ::
  "('t, 'g) torch_ops \<Rightarrow> ('t, 'gr, 'os) train_ops \<Rightarrow> (nat \<Rightarrow> ('t \<times> 't) list)
     \<Rightarrow> ('t, 'g, 'gr, 'os) notebook3 \<Rightarrow> nat \<Rightarrow> ('t, 'g, 'gr, 'os) notebook3 \<times> py_error option" where
  "train_epoch K A loader s epoch =
     (case for_each (train_batch K A epoch) s (enumerate 0 (loader epoch)) of
        (s', None) \<Rightarrow> (log Newline s', None)
      | (s', Some e) \<Rightarrow> (s', Some e))"

definition train_cell ::
  "('t, 'g) torch_ops \<Rightarrow> ('t, 'gr, 'os) train_ops \<Rightarrow> (nat \<Rightarrow> ('t \<times> 't) list)
     \<Rightarrow> ('t, 'g, 'gr, 'os) notebook3 \<Rightarrow> ('t, 'g, 'gr, 'os) notebook3 \<times> py_error option" where
  "train_cell K A loader s = for_each (train_epoch K A loader) s [0..<epochs]"

text \<open>
  The body of the evaluation loop, which runs under \<open>torch.no_grad()\<close>:
  \<^verbatim>\<open>input_data, target_data = input_data.to(device), target_data.to(device)
  output = model(input_data)
  pred = output.argmax(dim=1)
  correct += pred.eq(target_data.view_as(pred)).sum()
  pbar.update(1)\<close>
\<close>

definition eval_batch ::
  "('t, 'g) torch_ops \<Rightarrow> ('t, 'gr, 'os) train_ops \<Rightarrow> ('t, 'g, 'gr, 'os) notebook3
     \<Rightarrow> nat \<times> 't \<times> 't \<Rightarrow> ('t, 'g, 'gr, 'os) notebook3 \<times> py_error option" where
  "eval_batch K A s0 b =
     (case b of (batch_ind, input_data0, target_data0) \<Rightarrow>
        let input_data = to_device A input_data0;
            target_data = to_device A target_data0
        in case LeNet_forward K (model s0) (input_data, rng s0) of
             Inl e \<Rightarrow> (s0, Some e)
           | Inr (output, g) \<Rightarrow>
               let s1 = s0\<lparr>rng := g\<rparr>
               in case argmax A output of
                    Inl e \<Rightarrow> (s1, Some e)
                  | Inr pred \<Rightarrow>
                      (case eq_sum A pred target_data of
                         Inl e \<Rightarrow> (s1, Some e)
                       | Inr c \<Rightarrow>
                           (s1\<lparr>correct := Some (add_count A (correct s1) c),
                               pbar := pbar s1 + 1\<rparr>, None)))"

text \<open>
  \<^verbatim>\<open>correct = 0
  with torch.no_grad():
      with tqdm(total=len(test_data_loader)) as pbar:
          for batch_ind, (input_data, target_data) in enumerate(test_data_loader): ...\<close>
\<close>

definition eval_cell ::
  "('t, 'g) torch_ops \<Rightarrow> ('t, 'gr, 'os) train_ops \<Rightarrow> ('t \<times> 't) list
     \<Rightarrow> ('t, 'g, 'gr, 'os) notebook3 \<Rightarrow> ('t, 'g, 'gr, 'os) notebook3 \<times> py_error option" where
  "eval_cell K A test_data_loader s =
     for_each (eval_batch K A) (s\<lparr>correct := None, pbar := 0\<rparr>) (enumerate 0 test_data_loader)"

text \<open>
  The cells before the training loop,
  \<^verbatim>\<open>model = LeNet().to(device)
  optimizer = optim.Adam(model.parameters(), lr=0.001)
  model = model.train()\<close>
  with the generator, the gradient state and the optimizer's internal state as the library
  starts them, and the cell \<open>model = model.eval()\<close> between the two loops.
\<close>

definition setup_cell :: "'g \<Rightarrow> 'gr \<Rightarrow> 'os \<Rightarrow> ('t, 'g, 'gr, 'os) notebook3" where
  "setup_cell g gr0 os0 =
     \<lparr>model = train LeNet_init,
      optimizer = optim_Adam (length (parameters LeNet_init)) (1 / 1000) os0,
      grads = gr0, rng = g, trace = [], correct = None, pbar = 0\<rparr>"

definition eval_mode_cell :: "('t, 'g, 'gr, 'os) notebook3 \<Rightarrow> ('t, 'g, 'gr, 'os) notebook3" where
  "eval_mode_cell s = s\<lparr>model := eval (model s)\<rparr>"

text \<open>
  The events of one batch of the training loop under an optimizer with the given rule and
  learning rate, and of the batches \<open>i, ..., i + n - 1\<close> of an epoch.
\<close>

definition batch_events :: "update_rule \<Rightarrow> rat \<Rightarrow> nat \<Rightarrow> nat \<Rightarrow> event list" where
  "batch_events r rate epoch batch_ind =
     [To_device, To_device, Forward, Loss, Zero_grad, Backward, Step r rate]
     @ (if batch_ind mod print_every = 0 then [Print epoch batch_ind] else [])"

definition epoch_events :: "update_rule \<Rightarrow> rat \<Rightarrow> nat \<Rightarrow> nat \<Rightarrow> nat \<Rightarrow> event list" where
  "epoch_events r rate epoch i n = concat (map (batch_events r rate epoch) [i..<i + n])"

text \<open>
  The loop operations read on shapes: the loss is a scalar and needs as many targets as
  the batch has rows, \<open>backward\<close> needs a scalar, a step keeps every shape, \<open>argmax(dim=1)\<close>
  removes dimension 1, and the count of equal entries is a scalar.
\<close>

fun shape_cross_entropy :: "nat list \<Rightarrow> nat list \<Rightarrow> py_error + nat list" where
  "shape_cross_entropy [n, c] tgt = (if tgt = [n] \<and> 0 < c then Inr [] else Inl ValueError)"
| "shape_cross_entropy sh tgt = Inl RuntimeError"

fun shape_argmax :: "nat list \<Rightarrow> py_error + nat list" where
  "shape_argmax (n # c # sh) = (if 0 < c then Inr (n # sh) else Inl RuntimeError)"
| "shape_argmax sh = Inl RuntimeError"

definition shape_train_ops :: "(nat list, unit, unit) train_ops" where
  "shape_train_ops =
     \<lparr>to_device = (\<lambda>sh. sh),
      cross_entropy = shape_cross_entropy,
      zero_grad = (\<lambda>gr. gr),
      backward = (\<lambda>l gr. if l = [] then Inr gr else Inl RuntimeError),
      step = (\<lambda>opt m gr. (m, ostate opt)),
      argmax = shape_argmax,
      eq_sum = (\<lambda>pred tgt. if prod_list pred = prod_list tgt then Inr [] else Inl RuntimeError),
      add_count = (\<lambda>c v. v)\<rparr>"

text \<open>
  The loop operations read on shapes once more, now with the gradient state read as the
  number of backward passes accumulated since it was last cleared, and the optimizer's
  internal state as the list of those numbers, one for each step it has made.
\<close>

definition counting_train_ops :: "(nat list, nat, nat list) train_ops" where
  "counting_train_ops =
     \<lparr>to_device = (\<lambda>sh. sh),
      cross_entropy = shape_cross_entropy,
      zero_grad = (\<lambda>gr. 0),
      backward = (\<lambda>l gr. if l = [] then Inr (Suc gr) else Inl RuntimeError),
      step = (\<lambda>opt m gr. (m, ostate opt @ [gr])),
      argmax = shape_argmax,
      eq_sum = (\<lambda>pred tgt. if prod_list pred = prod_list tgt then Inr [] else Inl RuntimeError),
      add_count = (\<lambda>c v. v)\<rparr>"

text \<open>
  The Optimizer Loop as the specification words it (section 4.2), on what the loop owns:
  the model, the optimizer, the gradient state and the generator. Per batch: (1) move the
  batch to the device, (2) forward it through the model to a prediction, (3) compute the
  loss, (4) clear the accumulated gradient state, (5) propagate gradients backward,
  (6) apply one update step with the optimizer's rule and learning rate. Any failure ends
  the run.
\<close>

definition optimizer_step ::
  "('t, 'g) torch_ops \<Rightarrow> ('t, 'gr, 'os) train_ops \<Rightarrow> net \<times> 'os optimizer \<times> 'gr \<times> 'g
     \<Rightarrow> 't \<times> 't \<Rightarrow> py_error + net \<times> 'os optimizer \<times> 'gr \<times> 'g" where
  "optimizer_step K A st b =
     (case st of (m, opt, gr, g) \<Rightarrow>
        case LeNet_forward K m (to_device A (fst b), g) of
          Inl e \<Rightarrow> Inl e
        | Inr (prediction, g') \<Rightarrow>
            (case cross_entropy A prediction (to_device A (snd b)) of
               Inl e \<Rightarrow> Inl e
             | Inr loss_scalar \<Rightarrow>
                 (case backward A loss_scalar (zero_grad A gr) of
                    Inl e \<Rightarrow> Inl e
                  | Inr gr' \<Rightarrow>
                      Inr (fst (step A opt m gr'), opt\<lparr>ostate := snd (step A opt m gr')\<rparr>,
                           gr', g'))))"

fun optimizer_loop ::
  "('t, 'g) torch_ops \<Rightarrow> ('t, 'gr, 'os) train_ops \<Rightarrow> net \<times> 'os optimizer \<times> 'gr \<times> 'g
     \<Rightarrow> ('t \<times> 't) list \<Rightarrow> py_error + net \<times> 'os optimizer \<times> 'gr \<times> 'g" where
  "optimizer_loop K A st [] = Inr st"
| "optimizer_loop K A st (b # bs) =
     (case optimizer_step K A st b of
        Inl e \<Rightarrow> Inl e
      | Inr st' \<Rightarrow> optimizer_loop K A st' bs)"

text \<open>What the Optimizer Loop owns, of the global variables of notebook 3.\<close>

definition core :: "('t, 'g, 'gr, 'os) notebook3 \<Rightarrow> net \<times> 'os optimizer \<times> 'gr \<times> 'g" where
  "core s = (model s, optimizer s, grads s, rng s)"

section \<open>Saving and loading (notebook 4)\<close>

text \<open>
  The model of notebook 4 is \<open>torchvision.models.alexnet\<close>, whose architecture is not the
  repository's: it is known here by its named parameters, each a shape and the bit patterns
  of its 32-bit floats, in a fixed order.
\<close>

record tensor =
  dims :: "nat list"
  storage :: "32 word list"

type_synonym state_dict = "(string \<times> tensor) list"

record module =
  named_parameters :: state_dict

definition get_state_dict :: "module \<Rightarrow> state_dict" where
  "get_state_dict self = named_parameters self"

text \<open>What \<open>torch.save\<close> is given in this notebook, and the files it has written.\<close>

datatype 'os pickled =
    P_int int
  | P_state_dict state_dict
  | P_optimizer "'os optimizer"
  | P_module module
  | P_dict "(string \<times> 'os pickled) list"

type_synonym 'os files = "string \<rightharpoonup> 'os pickled"

text \<open>
  Modelled from the spec: \<open>torch.save\<close> and \<open>torch.load\<close>, whose code is the library's.
  The file holds an opaque byte stream that the paired load routine turns back into the
  object that was saved; loading a path nothing was saved under raises.
\<close>

definition torch_save :: "'os pickled \<Rightarrow> string \<Rightarrow> 'os files \<Rightarrow> 'os files" where
  "torch_save obj path fs = fs(path \<mapsto> obj)"

definition torch_load :: "string \<Rightarrow> 'os files \<Rightarrow> py_error + 'os pickled" where
  "torch_load path fs = (case fs path of None \<Rightarrow> Inl FileNotFoundError | Some obj \<Rightarrow> Inr obj)"

text \<open>\<open>d[k]\<close> on a loaded object.\<close>

fun getitem :: "'os pickled \<Rightarrow> string \<Rightarrow> py_error + 'os pickled" where
  "getitem (P_dict kvs) k = (case map_of kvs k of None \<Rightarrow> Inl (KeyError k) | Some v \<Rightarrow> Inr v)"
| "getitem obj k = Inl TypeError"

text \<open>
  Modelled from the spec: \<open>Module.load_state_dict\<close>, whose code is the library's.
  It copies the parameter values field by field, by name, and raises a loading error when
  a named parameter is missing or has another shape, or when the record has a key the
  model does not expect. What the target holds after a raise is not part of this model:
  the result is the target after a load that succeeded.
\<close>

definition load_state_dict :: "module \<Rightarrow> state_dict \<Rightarrow> py_error + module" where
  "load_state_dict self sd =
     (if list_all (\<lambda>k. k \<in> set (map fst (named_parameters self))) (map fst sd)
         \<and> list_all (\<lambda>(k, t). case map_of sd k of None \<Rightarrow> False | Some t' \<Rightarrow> dims t' = dims t)
              (named_parameters self)
      then Inr (self\<lparr>named_parameters :=
                  map (\<lambda>(k, t). (k, case map_of sd k of None \<Rightarrow> t | Some t' \<Rightarrow> t'))
                    (named_parameters self)\<rparr>)
      else Inl RuntimeError)"

text \<open>
  Modelled from the spec: \<open>Optimizer.state_dict\<close> and \<open>Optimizer.load_state_dict\<close>, whose
  code is the library's. The saved optimizer state is read back into the fresh optimizer,
  hyperparameters included; it raises when the two were built over different numbers of
  parameters.
\<close>

definition optimizer_state_dict :: "'os optimizer \<Rightarrow> 'os optimizer" where
  "optimizer_state_dict self = self"

definition optimizer_load_state_dict :: "'os optimizer \<Rightarrow> 'os optimizer \<Rightarrow> py_error + 'os optimizer" where
  "optimizer_load_state_dict self d =
     (if n_params d = n_params self then Inr (self\<lparr>lr := lr d, ostate := ostate d\<rparr>)
      else Inl ValueError)"

text \<open>
  \<^verbatim>\<open># Method 1: Saving the entire model
  PATH = 'alexnet_pretrained_1'
  torch.save(model, PATH)\<close>
  Each saving cell returns the \<open>PATH\<close> it assigns and the files after it.
\<close>

definition save_model_cell :: "module \<Rightarrow> 'os files \<Rightarrow> string \<times> 'os files" where
  "save_model_cell mdl fs =
     (let PATH = ''alexnet_pretrained_1'' in (PATH, torch_save (P_module mdl) PATH fs))"

text \<open>
  \<^verbatim>\<open># Method 2: Saving only the parameters
  PATH = 'alexnet_pretrained_2'
  state = {
      'epoch': 30,
      'state_dict': model.state_dict(),
      'optimizer': optimizer.state_dict()
  }
  torch.save(state, PATH)\<close>
\<close>

definition checkpoint_record :: "module \<Rightarrow> 'os optimizer \<Rightarrow> 'os pickled" where
  "checkpoint_record mdl opt =
     P_dict [(''epoch'', P_int 30),
             (''state_dict'', P_state_dict (get_state_dict mdl)),
             (''optimizer'', P_optimizer (optimizer_state_dict opt))]"

definition save_state_cell :: "module \<Rightarrow> 'os optimizer \<Rightarrow> 'os files \<Rightarrow> string \<times> 'os files" where
  "save_state_cell mdl opt fs =
     (let PATH = ''alexnet_pretrained_2''; state = checkpoint_record mdl opt
      in (PATH, torch_save state PATH fs))"

text \<open>
  \<^verbatim>\<open>old_state = torch.load(PATH)
  model.load_state_dict(old_state['state_dict'])
  optimizer.load_state_dict(old_state['optimizer'])\<close>
  The cell reads the global \<open>PATH\<close>; it returns the model and the optimizer after it.
\<close>

definition load_state_cell ::
  "string \<Rightarrow> 'os files \<Rightarrow> module \<Rightarrow> 'os optimizer \<Rightarrow> py_error + module \<times> 'os optimizer" where
  "load_state_cell PATH fs mdl opt =
     (case torch_load PATH fs of
        Inl e \<Rightarrow> Inl e
      | Inr old_state \<Rightarrow>
          (case getitem old_state ''state_dict'' of
             Inl e \<Rightarrow> Inl e
           | Inr (P_state_dict sd) \<Rightarrow>
               (case load_state_dict mdl sd of
                  Inl e \<Rightarrow> Inl e
                | Inr mdl' \<Rightarrow>
                    (case getitem old_state ''optimizer'' of
                       Inl e \<Rightarrow> Inl e
                     | Inr (P_optimizer d) \<Rightarrow>
                         map_sum id (\<lambda>opt'. (mdl', opt')) (optimizer_load_state_dict opt d)
                     | Inr other \<Rightarrow> Inl TypeError))
           | Inr other \<Rightarrow> Inl TypeError))"

text \<open>
  The saving and loading cells of the notebook in order. \<open>pretrained\<close> is what
  \<open>alexnet(pretrained=True)\<close> returns and \<open>fresh\<close> what the later \<open>alexnet()\<close> returns, with
  the optimizers \<open>optim.Adam(model.parameters(), lr=5e-3)\<close> and
  \<open>optim.Adam(model.parameters())\<close>, whose default learning rate is 0.001.
\<close>

definition notebook4 ::
  "module \<Rightarrow> module \<Rightarrow> 'os \<Rightarrow> 'os \<Rightarrow> 'os files \<Rightarrow> py_error + module \<times> 'os optimizer" where
  "notebook4 pretrained fresh os0 os1 fs0 =
     (let optimizer0 = optim_Adam (length (named_parameters pretrained)) (5 / 1000) os0;
          (PATH1, fs1) = save_model_cell pretrained fs0
      in case torch_load PATH1 fs1 of
           Inl e \<Rightarrow> Inl e
         | Inr replica \<Rightarrow>
             let (PATH2, fs2) = save_state_cell pretrained optimizer0 fs1;
                 optimizer1 = optim_Adam (length (named_parameters fresh)) (1 / 1000) os1
             in load_state_cell PATH2 fs2 fresh optimizer1)"

text \<open>
  Two models have the same architecture when their parameters have the same names and
  shapes, in the same order; the names of a model's parameters are distinct.
\<close>

definition same_architecture :: "module \<Rightarrow> module \<Rightarrow> bool" where
  "same_architecture m1 m2 =
     (map (\<lambda>(k, t). (k, dims t)) (named_parameters m1)
        = map (\<lambda>(k, t). (k, dims t)) (named_parameters m2))"

definition well_formed :: "module \<Rightarrow> bool" where
  "well_formed m = distinct (map fst (named_parameters m))"

section \<open>Construction of the networks\<close>

lemma SimpleNet_children:
  "children (SimpleNet_init k) =
     [(conv1, Conv2d 3 64 11 4 2 \<lparr>shape = [64, 3, 11, 11], contents = kaiming_normal relu\<rparr>
                \<lparr>shape = [64], contents = filled 0\<rparr>),
      (pool1, MaxPool2d 3 2),
      (dropout1, Dropout (3 / 10)),
      (fc1, Linear 256 k \<lparr>shape = [k, 256], contents = kaiming_normal relu\<rparr>
                \<lparr>shape = [k], contents = filled 0\<rparr>)]"
  by (simp add: SimpleNet_init_def nn_Conv2d_def nn_Linear_def nn_MaxPool2d_def nn_Dropout_def
      init_kaiming_normal_def data_fill_def)

lemma LeNet_children:
  "children LeNet_init =
     [(conv1, Conv2d 1 20 5 1 0 \<lparr>shape = [20, 1, 5, 5], contents = kaiming_normal leaky_relu\<rparr>
                \<lparr>shape = [20], contents = filled 0\<rparr>),
      (conv2, Conv2d 20 50 5 1 0 \<lparr>shape = [50, 20, 5, 5], contents = kaiming_normal leaky_relu\<rparr>
                \<lparr>shape = [50], contents = filled 0\<rparr>),
      (fc1, Linear 800 500 \<lparr>shape = [500, 800], contents = kaiming_normal leaky_relu\<rparr>
                \<lparr>shape = [500], contents = filled 0\<rparr>),
      (fc2, Linear 500 10 \<lparr>shape = [10, 500], contents = kaiming_normal leaky_relu\<rparr>
                \<lparr>shape = [10], contents = filled 0\<rparr>)]"
  by (simp add: LeNet_init_def nn_Conv2d_def nn_Linear_def
      init_kaiming_normal_def data_fill_def)

lemma init_module_params:
  "has_params m \<Longrightarrow>
     elements (bias (init_module nl m)) = Some (replicate (prod_list (shape (bias m))) 0)
     \<and> contents (weight (init_module nl m)) = kaiming_normal nl"
  by (cases m) (simp_all add: elements_def data_fill_def init_kaiming_normal_def)

text \<open>
  C10. After \<open>SimpleNet(num_classes)\<close> and after \<open>LeNet()\<close>, every layer of the network that
  is a convolution or a linear layer has a bias whose elements are all zero and a weight
  last written by the Kaiming-normal initialiser (with the \<open>relu\<close> gain in SimpleNet and
  the default \<open>leaky_relu\<close> gain in LeNet). Those layers are \<open>conv1\<close> and \<open>fc1\<close> in
  SimpleNet and \<open>conv1\<close>, \<open>conv2\<close>, \<open>fc1\<close> and \<open>fc2\<close> in LeNet.
\<close>

theorem construction_initialises:
  "(\<forall>(a, m) \<in> set (children (SimpleNet_init k)). has_params m \<longrightarrow>
      elements (bias m) = Some (replicate (prod_list (shape (bias m))) 0)
      \<and> contents (weight m) = kaiming_normal relu)
   \<and> (\<forall>(a, m) \<in> set (children LeNet_init). has_params m \<longrightarrow>
      elements (bias m) = Some (replicate (prod_list (shape (bias m))) 0)
      \<and> contents (weight m) = kaiming_normal leaky_relu)
   \<and> map fst (filter (\<lambda>(a, m). has_params m) (children (SimpleNet_init k))) = [conv1, fc1]
   \<and> map fst (filter (\<lambda>(a, m). has_params m) (children LeNet_init)) = [conv1, conv2, fc1, fc2]"
  by (simp add: SimpleNet_children LeNet_children elements_def)

theorem construction_initialises_witness:
  "map_of (children (SimpleNet_init 10)) fc1
     = Some (Linear 256 10 \<lparr>shape = [10, 256], contents = kaiming_normal relu\<rparr>
                \<lparr>shape = [10], contents = filled 0\<rparr>)
   \<and> elements \<lparr>shape = [10], contents = filled 0\<rparr> = Some [0, 0, 0, 0, 0, 0, 0, 0, 0, 0]
   \<and> map fst (filter (\<lambda>(a, m). has_params m) (children (SimpleNet_init 10))) = [conv1, fc1]"
  using construction_initialises [of 10]
  by (simp add: SimpleNet_children elements_def numeral_eq_Suc)

section \<open>Output shapes\<close>

lemmas forward_shape_defs =
  call_def pure_op_def raising_op_def shape_ops_def shape_view_def shape_linear_def
  shape_log_softmax_def

lemma LeNet_shape_28: "LeNet_shape LeNet_init [n, 1, 28, 28] = Inr [n, 10]"
  by (simp add: LeNet_shape_def LeNet_forward_def LeNet_children forward_shape_defs window_def)

lemma LeNet_shape_accepted:
  "LeNet_shape LeNet_init [n, c, h, w] = Inr out \<Longrightarrow>
     out = [n * (LeNet_extent h * LeNet_extent w) div 16, 10]"
  by (auto simp add: LeNet_shape_def LeNet_forward_def LeNet_children forward_shape_defs
      LeNet_extent_def split: if_splits)

lemma SimpleNet_extent_2: "23 \<le> h \<Longrightarrow> h \<le> 30 \<Longrightarrow> SimpleNet_extent h = 2"
  unfolding SimpleNet_extent_def window_def by simp

lemma SimpleNet_shape_accepted:
  "SimpleNet_shape (SimpleNet_init k) [n, c, h, w] = Inr out \<Longrightarrow>
     out = [n * (SimpleNet_extent h * SimpleNet_extent w) div 4, k]"
  by (auto simp add: SimpleNet_shape_def SimpleNet_forward_def SimpleNet_children
      forward_shape_defs SimpleNet_extent_def split: if_splits)

lemma SimpleNet_shape_designed:
  assumes "23 \<le> h" "h \<le> 30" "23 \<le> w" "w \<le> 30"
  shows "SimpleNet_shape (SimpleNet_init k) [n, 3, h, w] = Inr [n, k]"
proof -
  have eh: "window 3 2 0 (window 11 4 2 h) = 2" and ew: "window 3 2 0 (window 11 4 2 w) = 2"
    using assms SimpleNet_extent_2 by (simp_all add: SimpleNet_extent_def)
  have ch: "3 \<le> window 11 4 2 h" and cw: "3 \<le> window 11 4 2 w"
    using assms unfolding window_def by simp_all
  show ?thesis
    using assms eh ew ch cw
    by (simp add: SimpleNet_shape_def SimpleNet_forward_def SimpleNet_children forward_shape_defs)
qed

text \<open>
  LeNet accepts a batch of one 44 by 44 image and returns four rows for it: the feature map
  that reaches \<open>view(-1, 4*4*50)\<close> is 8 by 8, four times the 800 elements of a row.
\<close>

theorem LeNet_rows_counterexample:
  "LeNet_shape LeNet_init [1, 1, 44, 44] = Inr [4, 10] \<and> hd [4, 10] \<noteq> (1::nat)"
  by (simp add: LeNet_shape_def LeNet_forward_def LeNet_children forward_shape_defs window_def)

text \<open>
  C4, amended. For a batch of \<open>n\<close> images of the size a network is written for (one channel
  of 28 by 28 for LeNet; three channels of \<open>h\<close> by \<open>w\<close> with \<open>h\<close> and \<open>w\<close> from 23 to 30 for
  SimpleNet), the output shape is \<open>[n, classes]\<close>, with 10 classes in LeNet and
  \<open>num_classes\<close> in SimpleNet. For every input a network accepts, the trailing dimension is
  the number of classes, and the leading dimension is \<open>n\<close> times the size of the feature map
  that reaches \<open>view\<close>, divided by the 16 (LeNet) or 4 (SimpleNet) positions a row holds.
\<close>

theorem forward_output_shape:
  "LeNet_shape LeNet_init [n, 1, 28, 28] = Inr [n, 10]
   \<and> (23 \<le> h \<and> h \<le> 30 \<and> 23 \<le> w \<and> w \<le> 30 \<longrightarrow>
        SimpleNet_shape (SimpleNet_init k) [n, 3, h, w] = Inr [n, k])
   \<and> (LeNet_shape LeNet_init [n, c, h, w] = Inr out \<longrightarrow>
        out = [n * (LeNet_extent h * LeNet_extent w) div 16, 10])
   \<and> (SimpleNet_shape (SimpleNet_init k) [n, c, h, w] = Inr out \<longrightarrow>
        out = [n * (SimpleNet_extent h * SimpleNet_extent w) div 4, k])"
proof (intro conjI impI)
  show "LeNet_shape LeNet_init [n, 1, 28, 28] = Inr [n, 10]"
    by (rule LeNet_shape_28)
  show "SimpleNet_shape (SimpleNet_init k) [n, 3, h, w] = Inr [n, k]"
    if "23 \<le> h \<and> h \<le> 30 \<and> 23 \<le> w \<and> w \<le> 30"
    using that by (intro SimpleNet_shape_designed) simp_all
  show "out = [n * (LeNet_extent h * LeNet_extent w) div 16, 10]"
    if "LeNet_shape LeNet_init [n, c, h, w] = Inr out"
    using that by (rule LeNet_shape_accepted)
  show "out = [n * (SimpleNet_extent h * SimpleNet_extent w) div 4, k]"
    if "SimpleNet_shape (SimpleNet_init k) [n, c, h, w] = Inr out"
    using that by (rule SimpleNet_shape_accepted)
qed

theorem forward_output_shape_witness:
  "LeNet_shape LeNet_init [64, 1, 28, 28] = Inr [64, 10]
   \<and> SimpleNet_shape (SimpleNet_init 10) [64, 3, 23, 23] = Inr [64, 10]
   \<and> LeNet_extent 28 = 4 \<and> SimpleNet_extent 23 = 2"
proof -
  have "(23::nat) \<le> 23" and "(23::nat) \<le> 30" by simp_all
  then show ?thesis
    using forward_output_shape [of 64 23 23 10 1 "[64, 10]"]
    by (simp add: LeNet_extent_def SimpleNet_extent_def window_def)
qed

section \<open>Evaluation mode\<close>

lemma gen_free_same: "gen_free f \<Longrightarrow> f (x, g) = Inr (y, g1) \<Longrightarrow> g1 = g"
proof -
  assume a: "gen_free f" and b: "f (x, g) = Inr (y, g1)"
  from a have "f (x, g) = map_sum id (\<lambda>r. (fst r, g)) (f (x, g))"
    unfolding gen_free_def by blast
  with b show "g1 = g" by simp
qed

lemma gen_free_other: "gen_free f \<Longrightarrow> f (x, g) = Inr (y, g1) \<Longrightarrow> f (x, g') = Inr (y, g')"
  unfolding gen_free_def by (metis fst_conv map_sum.simps(2))

lemma gen_free_error: "gen_free f \<Longrightarrow> f (x, g) = Inl e \<Longrightarrow> f (x, g') = Inl e"
  unfolding gen_free_def by (metis id_apply map_sum.simps(1))

lemma map_sum_regen:
  "map_sum id (\<lambda>r. (fst r, g')) (map_sum id (\<lambda>y. (y, g)) r) = map_sum id (\<lambda>y. (y, g')) r"
  by (cases r) simp_all

lemma pure_op_gen_free: "gen_free (pure_op f)"
  by (simp add: gen_free_def pure_op_def)

lemma raising_op_gen_free: "gen_free (raising_op f)"
  by (simp add: gen_free_def raising_op_def map_sum_regen)

lemma run_steps_gen_free:
  assumes "\<forall>f \<in> set fs. gen_free f"
  shows "gen_free (run_steps fs)"
  using assms
proof (induction fs)
  case Nil
  show ?case by (simp add: gen_free_def)
next
  case (Cons f fs)
  then have f: "gen_free f" and fs: "gen_free (run_steps fs)" by simp_all
  show ?case
    unfolding gen_free_def
  proof (intro allI)
    fix x g g'
    show "run_steps (f # fs) (x, g') = map_sum id (\<lambda>r. (fst r, g')) (run_steps (f # fs) (x, g))"
    proof (cases "f (x, g)")
      case (Inl e)
      then show ?thesis using gen_free_error [OF f Inl, of g'] by simp
    next
      case (Inr r)
      obtain y g1 where r: "r = (y, g1)" by (cases r)
      have g1: "g1 = g" using gen_free_same [OF f] Inr r by simp
      have "f (x, g') = Inr (y, g')" using gen_free_other [OF f] Inr r by simp
      moreover have "run_steps fs (y, g') = map_sum id (\<lambda>r. (fst r, g')) (run_steps fs (y, g))"
        using fs unfolding gen_free_def by blast
      ultimately show ?thesis using Inr r g1 by simp
    qed
  qed
qed

lemma layer_forward_eval: "gen_free (layer_forward K False m)"
  by (cases m) (simp_all add: gen_free_def map_sum_regen)

lemma call_eval_gen_free: "\<not> training self \<Longrightarrow> gen_free (call K self a)"
proof (cases "map_of (children self) a")
  case None
  then show ?thesis by (simp add: gen_free_def call_def)
next
  case (Some m)
  assume "\<not> training self"
  with Some have "call K self a = layer_forward K False m"
    by (simp add: call_def fun_eq_iff)
  then show ?thesis by (simp add: layer_forward_eval)
qed

lemma SimpleNet_forward_eval: "\<not> training self \<Longrightarrow> gen_free (SimpleNet_forward K self)"
  unfolding SimpleNet_forward_def
  by (rule run_steps_gen_free)
     (simp add: call_eval_gen_free pure_op_gen_free raising_op_gen_free)

lemma LeNet_forward_eval: "\<not> training self \<Longrightarrow> gen_free (LeNet_forward K self)"
  unfolding LeNet_forward_def
  by (rule run_steps_gen_free)
     (simp add: call_eval_gen_free pure_op_gen_free raising_op_gen_free)

lemma gen_free_twice:
  assumes "gen_free fwd" and "infer_twice fwd x g = Inr (y1, y2)"
  shows "y1 = y2"
proof (cases "fwd (x, g)")
  case (Inl e)
  with assms(2) show ?thesis by (simp add: infer_twice_def)
next
  case (Inr r)
  obtain y g1 where r: "r = (y, g1)" by (cases r)
  have "fwd (x, g1) = Inr (y, g1)" using gen_free_other [OF assms(1)] Inr r by simp
  with assms(2) Inr r show ?thesis by (auto simp add: infer_twice_def)
qed

text \<open>
  C5. After \<open>model.eval()\<close>, two successive inferences of SimpleNet, and of LeNet, on the
  same input return the same output, whatever the library's operations compute and whatever
  the state of the generator. In training mode they may differ: with dropout drawing the
  mask that keeps the element and then the mask that zeroes it, SimpleNet returns
  \<open>[10/7]\<close> and then \<open>[0]\<close> for the input \<open>[1]\<close>.
\<close>

theorem eval_mode_deterministic:
  "(infer_twice (SimpleNet_forward K (eval self)) x g = Inr (y1, y2) \<longrightarrow> y1 = y2)
   \<and> (infer_twice (LeNet_forward K (eval self)) x g = Inr (y1, y2) \<longrightarrow> y1 = y2)
   \<and> infer_twice (SimpleNet_forward mask_ops (train (SimpleNet_init 10))) [1] [[False], [True]]
       = Inr ([10 / 7], [0])"
proof (intro conjI impI)
  have ev: "\<not> training (eval self)" by (simp add: eval_def)
  show "y1 = y2" if "infer_twice (SimpleNet_forward K (eval self)) x g = Inr (y1, y2)"
    using gen_free_twice [OF SimpleNet_forward_eval [OF ev] that] .
  show "y1 = y2" if "infer_twice (LeNet_forward K (eval self)) x g = Inr (y1, y2)"
    using gen_free_twice [OF LeNet_forward_eval [OF ev] that] .
  show "infer_twice (SimpleNet_forward mask_ops (train (SimpleNet_init 10))) [1] [[False], [True]]
       = Inr ([10 / 7], [0])"
    by (simp add: infer_twice_def SimpleNet_forward_def train_def SimpleNet_init_def call_def
        nn_Conv2d_def nn_Linear_def nn_MaxPool2d_def nn_Dropout_def pure_op_def raising_op_def
        mask_ops_def)
qed

theorem eval_mode_deterministic_witness:
  "infer_twice (SimpleNet_forward mask_ops (eval (SimpleNet_init 10))) [1] [[False], [True]]
     = Inr ([1], [1])
   \<and> infer_twice (LeNet_forward shape_ops (eval LeNet_init)) [64, 1, 28, 28] ()
     = Inr ([64, 10], [64, 10])"
  using eval_mode_deterministic [where K = mask_ops and self = "SimpleNet_init 10" and x = "[1]"
      and g = "[[False], [True]]" and ?y1.0 = "[1]" and ?y2.0 = "[1]"]
  by (simp add: infer_twice_def SimpleNet_forward_def LeNet_forward_def eval_def
      SimpleNet_init_def LeNet_init_def call_def window_def
      nn_Conv2d_def nn_Linear_def nn_MaxPool2d_def nn_Dropout_def pure_op_def raising_op_def
      mask_ops_def shape_ops_def shape_view_def shape_linear_def shape_log_softmax_def)

section \<open>The custom dataset cannot be built\<close>

text \<open>
  C9. In notebook 3, \<open>CustomDataset(filename, division)\<close> raises for every pair of
  arguments: the assertion fails when \<open>division\<close> is neither \<open>'train'\<close> nor \<open>'test'\<close>, and
  otherwise evaluating \<open>np.load\<close> raises a name error, since the notebook binds no \<open>np\<close>
  (nor \<open>dtype\<close>). No call returns an instance.
\<close>

theorem CustomDataset_never_constructed:
  "CustomDataset_init notebook3_names np_load dtype_str filename division
     = Inl (if division = PyStr ''train'' \<or> division = PyStr ''test'' then NameError ''np''
            else AssertionError)"
  by (auto simp add: CustomDataset_init_def notebook3_names_def)

theorem CustomDataset_never_constructed_witness:
  "CustomDataset_init notebook3_names (\<lambda>f. Inr (Map.empty :: string \<rightharpoonup> nat)) ''float''
       (PyStr ''data.npz'') (PyStr ''train'') = Inl (NameError ''np'')
   \<and> CustomDataset_init notebook3_names (\<lambda>f. Inr (Map.empty :: string \<rightharpoonup> nat)) ''float''
       (PyStr ''data.npz'') (PyStr ''valid'') = Inl AssertionError"
  using CustomDataset_never_constructed
      [of "\<lambda>f. Inr (Map.empty :: string \<rightharpoonup> nat)" "''float''" "PyStr ''data.npz''" "PyStr ''train''"]
    CustomDataset_never_constructed
      [of "\<lambda>f. Inr (Map.empty :: string \<rightharpoonup> nat)" "''float''" "PyStr ''data.npz''" "PyStr ''valid''"]
  by simp

section \<open>The training loop\<close>

lemma train_batch_trace:
  assumes "train_batch K A epoch s (i, xy) = (s', r)"
  shows "opt_rule (optimizer s') = opt_rule (optimizer s) \<and> lr (optimizer s') = lr (optimizer s)
         \<and> (\<exists>evs. trace s' = trace s @ evs
               \<and> prefix evs (batch_events (opt_rule (optimizer s)) (lr (optimizer s)) epoch i)
               \<and> (r = None \<longrightarrow>
                    evs = batch_events (opt_rule (optimizer s)) (lr (optimizer s)) epoch i))"
  using assms
  by (cases xy)
     (auto simp add: train_batch_def batch_events_def log_def Let_def
        split: sum.splits prod.splits if_splits)

lemma epoch_events_Suc:
  "epoch_events r rate epoch i (Suc n)
     = batch_events r rate epoch i @ epoch_events r rate epoch (Suc i) n"
proof -
  have "[i..<i + Suc n] = i # [Suc i..<Suc i + n]"
    using upt_conv_Cons [of i "i + Suc n"] by simp
  then show ?thesis
    unfolding epoch_events_def by (simp only: list.map concat.simps)
qed

lemma train_batches_trace:
  "for_each (train_batch K A epoch) s (enumerate i bs) = (s', r) \<Longrightarrow>
     opt_rule (optimizer s') = opt_rule (optimizer s) \<and> lr (optimizer s') = lr (optimizer s)
     \<and> prefix (trace s')
          (trace s @ epoch_events (opt_rule (optimizer s)) (lr (optimizer s)) epoch i (length bs))
     \<and> (r = None \<longrightarrow>
          trace s' = trace s
            @ epoch_events (opt_rule (optimizer s)) (lr (optimizer s)) epoch i (length bs))"
proof (induction bs arbitrary: s i)
  case Nil
  then show ?case by (simp add: epoch_events_def)
next
  case (Cons b bs)
  obtain s1 r1 where b: "train_batch K A epoch s (i, b) = (s1, r1)"
    by (cases "train_batch K A epoch s (i, b)")
  from train_batch_trace [OF b] obtain evs where
    o: "opt_rule (optimizer s1) = opt_rule (optimizer s)" "lr (optimizer s1) = lr (optimizer s)"
    and t: "trace s1 = trace s @ evs"
    and p: "prefix evs (batch_events (opt_rule (optimizer s)) (lr (optimizer s)) epoch i)"
    and f: "r1 = None \<Longrightarrow> evs = batch_events (opt_rule (optimizer s)) (lr (optimizer s)) epoch i"
    by blast
  show ?case
  proof (cases r1)
    case None
    with Cons.prems b have "for_each (train_batch K A epoch) s1 (enumerate (Suc i) bs) = (s', r)"
      by simp
    from Cons.IH [OF this] o t f [OF None] show ?thesis
      by (simp add: epoch_events_Suc)
  next
    case (Some e)
    with Cons.prems b have "s' = s1" "r = Some e" by simp_all
    with o t p show ?thesis
      by (simp add: epoch_events_Suc)
  qed
qed

lemma train_batch_dataflow:
  assumes "train_batch K A epoch s (batch_ind, input_data, target_data) = (s1, None)"
  shows "\<exists>output g1 loss gr.
           LeNet_forward K (model s) (to_device A input_data, rng s) = Inr (output, g1)
         \<and> cross_entropy A output (to_device A target_data) = Inr loss
         \<and> backward A loss (zero_grad A (grads s)) = Inr gr
         \<and> model s1 = fst (step A (optimizer s) (model s) gr)
         \<and> optimizer s1 = (optimizer s)\<lparr>ostate := snd (step A (optimizer s) (model s) gr)\<rparr>
         \<and> grads s1 = gr \<and> rng s1 = g1
         \<and> trace s1 = trace s
             @ batch_events (opt_rule (optimizer s)) (lr (optimizer s)) epoch batch_ind"
  using assms
  by (auto simp add: train_batch_def batch_events_def log_def Let_def
        split: sum.splits prod.splits if_splits)

lemma train_batch_refines:
  assumes "train_batch K A epoch s (i, b) = (s1, r)"
  shows "optimizer_step K A (core s) b = (case r of None \<Rightarrow> Inr (core s1) | Some e \<Rightarrow> Inl e)"
  using assms
  by (cases b)
     (auto simp add: train_batch_def optimizer_step_def core_def log_def Let_def
        split: sum.splits prod.splits if_splits)

lemma train_batches_refine:
  "for_each (train_batch K A epoch) s (enumerate i bs) = (s', r) \<Longrightarrow>
     optimizer_loop K A (core s) bs = (case r of None \<Rightarrow> Inr (core s') | Some e \<Rightarrow> Inl e)"
proof (induction bs arbitrary: s i)
  case Nil
  then show ?case by simp
next
  case (Cons b bs)
  obtain s1 r1 where b: "train_batch K A epoch s (i, b) = (s1, r1)"
    by (cases "train_batch K A epoch s (i, b)")
  note st = train_batch_refines [OF b]
  show ?case
  proof (cases r1)
    case None
    with Cons.prems b have "for_each (train_batch K A epoch) s1 (enumerate (Suc i) bs) = (s', r)"
      by simp
    from Cons.IH [OF this] st None show ?thesis by simp
  next
    case (Some e)
    with Cons.prems b have "s' = s1" "r = Some e" by simp_all
    with st Some show ?thesis by simp
  qed
qed

lemma train_cell_run:
  assumes "train_cell K A loader (setup_cell g gr0 os0) = (s', r)"
  shows "prefix (trace s') (epoch_events Adam (1 / 1000) 0 0 (length (loader 0)) @ [Newline])
         \<and> (r = None \<longrightarrow>
              trace s' = epoch_events Adam (1 / 1000) 0 0 (length (loader 0)) @ [Newline])
         \<and> optimizer_loop K A
              (train LeNet_init, optim_Adam (length (parameters LeNet_init)) (1 / 1000) os0, gr0, g)
              (loader 0)
             = (case r of None \<Rightarrow> Inr (core s') | Some e \<Rightarrow> Inl e)"
proof -
  let ?s = "setup_cell g gr0 os0 :: ('a, 'b, 'c, 'd) notebook3"
  have s: "trace ?s = []" "opt_rule (optimizer ?s) = Adam" "lr (optimizer ?s) = 1 / 1000"
    by (simp_all add: setup_cell_def optim_Adam_def)
  have c: "core ?s
      = (train LeNet_init, optim_Adam (length (parameters LeNet_init)) (1 / 1000) os0, gr0, g)"
    by (simp add: core_def setup_cell_def)
  obtain s1 r1 where i: "for_each (train_batch K A 0) ?s (enumerate 0 (loader 0)) = (s1, r1)"
    by (cases "for_each (train_batch K A 0) ?s (enumerate 0 (loader 0))")
  note tr = train_batches_trace [OF i, unfolded s]
  note rf = train_batches_refine [OF i, unfolded c]
  show ?thesis
  proof (cases r1)
    case None
    with assms i have "s' = log Newline s1" "r = None"
      by (simp_all add: train_cell_def epochs_def train_epoch_def)
    with tr rf None show ?thesis by (simp add: log_def core_def)
  next
    case (Some e)
    with assms i have "s' = s1" "r = Some e"
      by (simp_all add: train_cell_def epochs_def train_epoch_def)
    with tr rf Some show ?thesis by (auto simp add: prefix_def)
  qed
qed

lemma train_run:
  "train_cell shape_ops counting_train_ops
     (\<lambda>epoch. [([64, 1, 28, 28], [64]), ([32, 1, 28, 28], [32])]) (setup_cell () 5 [])
   = (\<lparr>model = train LeNet_init,
       optimizer = \<lparr>opt_rule = Adam, lr = 1 / 1000,
                    n_params = length (parameters LeNet_init), ostate = [1, 1]\<rparr>,
       grads = 1, rng = (),
       trace = [To_device, To_device, Forward, Loss, Zero_grad, Backward, Step Adam (1 / 1000),
                Print 0 0,
                To_device, To_device, Forward, Loss, Zero_grad, Backward, Step Adam (1 / 1000),
                Print 0 1, Newline],
       correct = None, pbar = 0\<rparr>, None)"
  by (simp add: LeNet_forward_def LeNet_init_def call_def window_def train_def
      nn_Conv2d_def nn_Linear_def pure_op_def raising_op_def
      shape_ops_def shape_view_def shape_linear_def shape_log_softmax_def counting_train_ops_def
      train_batch_def train_epoch_def train_cell_def
      setup_cell_def optim_Adam_def log_def epochs_def print_every_def Let_def)

lemma batch_run:
  "train_batch shape_ops counting_train_ops 0 (setup_cell () 5 []) (0, [64, 1, 28, 28], [64])
   = (\<lparr>model = train LeNet_init,
       optimizer = \<lparr>opt_rule = Adam, lr = 1 / 1000,
                    n_params = length (parameters LeNet_init), ostate = [1]\<rparr>,
       grads = 1, rng = (),
       trace = [To_device, To_device, Forward, Loss, Zero_grad, Backward, Step Adam (1 / 1000),
                Print 0 0],
       correct = None, pbar = 0\<rparr>, None)"
  by (simp add: LeNet_forward_def LeNet_init_def call_def window_def train_def
      nn_Conv2d_def nn_Linear_def pure_op_def raising_op_def
      shape_ops_def shape_view_def shape_linear_def shape_log_softmax_def counting_train_ops_def
      train_batch_def setup_cell_def optim_Adam_def log_def print_every_def Let_def)

text \<open>
  C1. Every batch that the training loop processes goes through the six steps in this
  order, each fed by the one before: the input and the target are moved to the device, the
  moved input is forwarded through the model, the loss is computed from the prediction and
  the moved target, the accumulated gradients are cleared, the gradients of that loss are
  propagated backward into the cleared gradient state, and the optimizer makes one step on
  the model with those gradients, under its configured rule and learning rate; the
  progress line follows. The training cell, run from the set-up cells (Adam at learning
  rate 0.001), does this to the batches of the loader one after the other: its outcome is
  that of the specification's Optimizer Loop, and the calls it makes are, per batch, the
  six steps in order, or an initial part of them if an operation raises.
\<close>

theorem training_loop_order:
  "(train_batch K A epoch s (batch_ind, input_data, target_data) = (s1, None) \<longrightarrow>
      (\<exists>output g1 loss gr.
           LeNet_forward K (model s) (to_device A input_data, rng s) = Inr (output, g1)
         \<and> cross_entropy A output (to_device A target_data) = Inr loss
         \<and> backward A loss (zero_grad A (grads s)) = Inr gr
         \<and> model s1 = fst (step A (optimizer s) (model s) gr)
         \<and> optimizer s1 = (optimizer s)\<lparr>ostate := snd (step A (optimizer s) (model s) gr)\<rparr>
         \<and> grads s1 = gr \<and> rng s1 = g1
         \<and> trace s1 = trace s
             @ batch_events (opt_rule (optimizer s)) (lr (optimizer s)) epoch batch_ind))
   \<and> (train_cell K A loader (setup_cell g gr0 os0) = (s', r) \<longrightarrow>
        prefix (trace s') (epoch_events Adam (1 / 1000) 0 0 (length (loader 0)) @ [Newline])
        \<and> (r = None \<longrightarrow>
             trace s' = epoch_events Adam (1 / 1000) 0 0 (length (loader 0)) @ [Newline])
        \<and> optimizer_loop K A
             (train LeNet_init, optim_Adam (length (parameters LeNet_init)) (1 / 1000) os0, gr0, g)
             (loader 0)
            = (case r of None \<Rightarrow> Inr (core s') | Some e \<Rightarrow> Inl e))"
  using train_batch_dataflow [of K A epoch s batch_ind input_data target_data s1]
    train_cell_run [of K A loader g gr0 os0 s' r]
  by blast

theorem training_loop_order_witness:
  "train_batch shape_ops counting_train_ops 0 (setup_cell () 5 []) (0, [64, 1, 28, 28], [64])
   = (\<lparr>model = train LeNet_init,
       optimizer = \<lparr>opt_rule = Adam, lr = 1 / 1000,
                    n_params = length (parameters LeNet_init), ostate = [1]\<rparr>,
       grads = 1, rng = (),
       trace = [To_device, To_device, Forward, Loss, Zero_grad, Backward, Step Adam (1 / 1000),
                Print 0 0],
       correct = None, pbar = 0\<rparr>, None)
   \<and> train_cell shape_ops counting_train_ops
       (\<lambda>epoch. [([64, 1, 28, 28], [64]), ([32, 1, 28, 28], [32])]) (setup_cell () 5 [])
   = (\<lparr>model = train LeNet_init,
       optimizer = \<lparr>opt_rule = Adam, lr = 1 / 1000,
                    n_params = length (parameters LeNet_init), ostate = [1, 1]\<rparr>,
       grads = 1, rng = (),
       trace = [To_device, To_device, Forward, Loss, Zero_grad, Backward, Step Adam (1 / 1000),
                Print 0 0,
                To_device, To_device, Forward, Loss, Zero_grad, Backward, Step Adam (1 / 1000),
                Print 0 1, Newline],
       correct = None, pbar = 0\<rparr>, None)
   \<and> optimizer_loop shape_ops counting_train_ops
        (train LeNet_init, optim_Adam (length (parameters LeNet_init)) (1 / 1000) [], 5, ())
        [([64, 1, 28, 28], [64]), ([32, 1, 28, 28], [32])]
     = Inr (train LeNet_init,
            \<lparr>opt_rule = Adam, lr = 1 / 1000,
             n_params = length (parameters LeNet_init), ostate = [1, 1]\<rparr>, 1, ())"
  using training_loop_order
    [where K = shape_ops and A = counting_train_ops and epoch = 0
       and s = "setup_cell () 5 []" and batch_ind = 0
       and input_data = "[64, 1, 28, 28]" and target_data = "[64]"
       and ?s1.0 = "\<lparr>model = train LeNet_init,
              optimizer = \<lparr>opt_rule = Adam, lr = 1 / 1000,
                    n_params = length (parameters LeNet_init), ostate = [1]\<rparr>,
              grads = 1, rng = (),
              trace = [To_device, To_device, Forward, Loss, Zero_grad, Backward,
                       Step Adam (1 / 1000), Print 0 0],
              correct = None, pbar = 0\<rparr>"
       and loader = "\<lambda>epoch. [([64, 1, 28, 28], [64]), ([32, 1, 28, 28], [32])]"
       and g = "()" and ?gr0.0 = 5 and ?os0.0 = "[]"
       and s' = "\<lparr>model = train LeNet_init,
              optimizer = \<lparr>opt_rule = Adam, lr = 1 / 1000,
                    n_params = length (parameters LeNet_init), ostate = [1, 1]\<rparr>,
              grads = 1, rng = (),
              trace = [To_device, To_device, Forward, Loss, Zero_grad, Backward,
                       Step Adam (1 / 1000), Print 0 0,
                       To_device, To_device, Forward, Loss, Zero_grad, Backward,
                       Step Adam (1 / 1000), Print 0 1, Newline],
              correct = None, pbar = 0\<rparr>"
       and r = None]
  unfolding batch_run train_run
  by (simp add: core_def)

section \<open>The evaluation loop\<close>

lemma for_each_preserves:
  assumes "\<And>s a s' r. body s a = (s', r) \<Longrightarrow> f s' = f s"
  shows "for_each body s as = (s', r) \<Longrightarrow> f s' = f s"
proof (induction as arbitrary: s)
  case Nil
  then show ?case by simp
next
  case (Cons a as)
  obtain s1 r1 where b: "body s a = (s1, r1)" by (cases "body s a")
  have s1: "f s1 = f s" using assms [OF b] .
  show ?case
  proof (cases r1)
    case None
    with Cons.prems b have "for_each body s1 as = (s', r)" by simp
    from Cons.IH [OF this] s1 show ?thesis by simp
  next
    case (Some e)
    with Cons.prems b s1 show ?thesis by auto
  qed
qed

lemma eval_batch_frame:
  assumes "eval_batch K A s b = (s', r)"
  shows "model s' = model s \<and> optimizer s' = optimizer s \<and> grads s' = grads s
         \<and> trace s' = trace s"
  using assms
  by (auto simp add: eval_batch_def Let_def split: prod.splits sum.splits)

lemma eval_batch_rng:
  assumes "eval_batch K A s b = (s', r)" and "\<not> training (model s)"
  shows "rng s' = rng s"
  using assms gen_free_same [OF LeNet_forward_eval [OF assms(2)], of K]
  by (auto simp add: eval_batch_def Let_def split: prod.splits sum.splits)

lemma eval_batch_pbar:
  assumes "eval_batch K A s b = (s', None)"
  shows "pbar s' = pbar s + 1"
  using assms
  by (auto simp add: eval_batch_def Let_def split: prod.splits sum.splits)

lemma for_each_eval_pbar:
  "for_each (eval_batch K A) s bs = (s', None) \<Longrightarrow> pbar s' = pbar s + length bs"
proof (induction bs arbitrary: s)
  case Nil
  then show ?case by simp
next
  case (Cons b bs)
  obtain s1 r1 where b: "eval_batch K A s b = (s1, r1)" by (cases "eval_batch K A s b")
  with Cons.prems have r1: "r1 = None" by (cases r1) auto
  with Cons.prems b have "for_each (eval_batch K A) s1 bs = (s', None)" by simp
  from Cons.IH [OF this] eval_batch_pbar [of K A s b s1] b r1 show ?case by simp
qed

lemma for_each_eval_rng:
  "for_each (eval_batch K A) s bs = (s', r) \<Longrightarrow> \<not> training (model s) \<Longrightarrow> rng s' = rng s"
proof (induction bs arbitrary: s)
  case Nil
  then show ?case by simp
next
  case (Cons b bs)
  obtain s1 r1 where b: "eval_batch K A s b = (s1, r1)" by (cases "eval_batch K A s b")
  have m: "model s1 = model s" using eval_batch_frame [OF b] by simp
  have g: "rng s1 = rng s" using eval_batch_rng [OF b Cons.prems(2)] .
  show ?case
  proof (cases r1)
    case None
    with Cons.prems b have "for_each (eval_batch K A) s1 bs = (s', r)" by simp
    from Cons.IH [OF this] m g Cons.prems(2) show ?thesis by simp
  next
    case (Some e)
    with Cons.prems b g show ?thesis by auto
  qed
qed

lemma eval_run:
  "eval_cell shape_ops shape_train_ops [([64, 1, 28, 28], [64]), ([16, 1, 28, 28], [16])]
     (eval_mode_cell (setup_cell () () ()))
   = (\<lparr>model = eval (train LeNet_init),
       optimizer = optim_Adam (length (parameters LeNet_init)) (1 / 1000) (),
       grads = (), rng = (), trace = [], correct = Some [], pbar = 2\<rparr>, None)"
  by (simp add: LeNet_forward_def LeNet_init_def call_def window_def train_def eval_def
      nn_Conv2d_def nn_Linear_def pure_op_def raising_op_def
      shape_ops_def shape_view_def shape_linear_def shape_log_softmax_def shape_train_ops_def
      eval_batch_def eval_cell_def eval_mode_cell_def
      setup_cell_def optim_Adam_def Let_def)

text \<open>
  C8. When the evaluation cell ends, normally or by an exception, the model is the one it
  started with, so every parameter holds the value it held before; the optimizer, the
  gradients and the training trace are untouched as well. In evaluation mode the generator
  is not advanced either, which leaves the counter \<open>correct\<close> and the progress bar as the
  only things written; the bar has counted every batch when the loop ends normally.
\<close>

theorem eval_loop_frame:
  assumes "eval_cell K A test_data_loader s = (s', r)"
  shows "model s' = model s \<and> parameters (model s') = parameters (model s)
         \<and> optimizer s' = optimizer s \<and> grads s' = grads s \<and> trace s' = trace s
         \<and> (\<not> training (model s) \<longrightarrow> rng s' = rng s)
         \<and> (r = None \<longrightarrow> pbar s' = length test_data_loader)"
proof -
  let ?s0 = "s\<lparr>correct := None, pbar := 0\<rparr>"
  from assms have run: "for_each (eval_batch K A) ?s0 (enumerate 0 test_data_loader) = (s', r)"
    by (simp add: eval_cell_def)
  have "(model s', optimizer s', grads s', trace s')
          = (model ?s0, optimizer ?s0, grads ?s0, trace ?s0)"
    by (rule for_each_preserves [where f = "\<lambda>s. (model s, optimizer s, grads s, trace s)", OF _ run])
       (simp add: eval_batch_frame)
  moreover have "\<not> training (model s) \<Longrightarrow> rng s' = rng s"
    using for_each_eval_rng [OF run] by simp
  moreover have "r = None \<Longrightarrow> pbar s' = length test_data_loader"
    using for_each_eval_pbar [of K A ?s0 "enumerate 0 test_data_loader" s'] run by simp
  ultimately show ?thesis by simp
qed

theorem eval_loop_frame_witness:
  "fst (eval_cell shape_ops shape_train_ops [([64, 1, 28, 28], [64]), ([16, 1, 28, 28], [16])]
          (eval_mode_cell (setup_cell () () ())))
   = \<lparr>model = eval (train LeNet_init),
      optimizer = optim_Adam (length (parameters LeNet_init)) (1 / 1000) (),
      grads = (), rng = (), trace = [], correct = Some [], pbar = 2\<rparr>
   \<and> model (eval_mode_cell (setup_cell () () ()) :: (nat list, unit, unit, unit) notebook3)
     = eval (train LeNet_init)"
  using eval_loop_frame [OF eval_run] unfolding eval_run
  by (simp add: eval_mode_cell_def setup_cell_def)

section \<open>Checkpoints\<close>

text \<open>
  C6. The record that the state-only saving cell builds and hands to \<open>torch.save\<close> is a
  mapping whose key \<open>'state_dict'\<close> holds the parameter values \<open>model.state_dict()\<close>, whose
  key \<open>'optimizer'\<close> holds the optimizer state \<open>optimizer.state_dict()\<close> and whose key
  \<open>'epoch'\<close> holds an epoch counter (the constant 30); it is what the file
  \<open>'alexnet_pretrained_2'\<close> holds after the cell.
\<close>

theorem checkpoint_record_contents:
  "getitem (checkpoint_record mdl opt) ''state_dict'' = Inr (P_state_dict (get_state_dict mdl))
   \<and> getitem (checkpoint_record mdl opt) ''optimizer'' = Inr (P_optimizer (optimizer_state_dict opt))
   \<and> getitem (checkpoint_record mdl opt) ''epoch'' = Inr (P_int 30)
   \<and> fst (save_state_cell mdl opt fs) = ''alexnet_pretrained_2''
   \<and> snd (save_state_cell mdl opt fs) ''alexnet_pretrained_2'' = Some (checkpoint_record mdl opt)"
  by (simp add: save_state_cell_def torch_save_def checkpoint_record_def Let_def)

theorem checkpoint_record_contents_witness:
  "getitem (checkpoint_record \<lparr>named_parameters = [(''w'', \<lparr>dims = [1], storage = [0x3F800000]\<rparr>)]\<rparr>
              (optim_Adam 1 (5 / 1000) (0::nat))) ''epoch'' = Inr (P_int 30)
   \<and> getitem (checkpoint_record \<lparr>named_parameters = [(''w'', \<lparr>dims = [1], storage = [0x3F800000]\<rparr>)]\<rparr>
              (optim_Adam 1 (5 / 1000) (0::nat))) ''state_dict''
       = Inr (P_state_dict [(''w'', \<lparr>dims = [1], storage = [0x3F800000]\<rparr>)])"
  using checkpoint_record_contents
      [of "\<lparr>named_parameters = [(''w'', \<lparr>dims = [1], storage = [0x3F800000]\<rparr>)]\<rparr>"
          "optim_Adam 1 (5 / 1000) (0::nat)" Map.empty]
  by (simp add: get_state_dict_def)

lemma map_of_nth:
  "distinct (map fst xs) \<Longrightarrow> i < length xs \<Longrightarrow> map_of xs (fst (xs ! i)) = Some (snd (xs ! i))"
  by (metis map_of_is_SomeI nth_mem prod.collapse)

lemma copy_by_name:
  assumes d: "distinct (map fst xs)" and k: "map fst ys = map fst xs"
  shows "map (\<lambda>(k, t). (k, case map_of xs k of None \<Rightarrow> t | Some t' \<Rightarrow> t')) ys = xs"
proof (rule nth_equalityI)
  have len: "length ys = length xs" using k by (metis length_map)
  show "length (map (\<lambda>(k, t). (k, case map_of xs k of None \<Rightarrow> t | Some t' \<Rightarrow> t')) ys) = length xs"
    using len by simp
  fix i
  assume "i < length (map (\<lambda>(k, t). (k, case map_of xs k of None \<Rightarrow> t | Some t' \<Rightarrow> t')) ys)"
  then have i: "i < length xs" "i < length ys" using len by simp_all
  have "fst (ys ! i) = fst (xs ! i)" using k i by (metis nth_map)
  moreover have "map_of xs (fst (xs ! i)) = Some (snd (xs ! i))" using map_of_nth [OF d i(1)] .
  ultimately show "map (\<lambda>(k, t). (k, case map_of xs k of None \<Rightarrow> t | Some t' \<Rightarrow> t')) ys ! i = xs ! i"
    using i by (simp add: case_prod_beta)
qed

lemma same_architecture_names:
  "same_architecture m1 m2 \<Longrightarrow> map fst (named_parameters m2) = map fst (named_parameters m1)"
proof -
  assume "same_architecture m1 m2"
  then have "map fst (map (\<lambda>(k, t). (k, dims t)) (named_parameters m1))
           = map fst (map (\<lambda>(k, t). (k, dims t)) (named_parameters m2))"
    by (simp add: same_architecture_def)
  then show ?thesis by (simp add: case_prod_beta comp_def)
qed

lemma same_architecture_dims:
  assumes "same_architecture m1 m2" and "i < length (named_parameters m2)"
  shows "dims (snd (named_parameters m1 ! i)) = dims (snd (named_parameters m2 ! i))"
proof -
  have len: "length (named_parameters m1) = length (named_parameters m2)"
    using same_architecture_names [OF assms(1)] by (metis length_map)
  have "map (\<lambda>(k, t). (k, dims t)) (named_parameters m1) ! i
          = map (\<lambda>(k, t). (k, dims t)) (named_parameters m2) ! i"
    using assms(1) by (simp add: same_architecture_def)
  then show ?thesis using assms(2) len by (simp add: case_prod_beta)
qed

lemma load_state_dict_roundtrip:
  assumes wf: "well_formed m1" and sa: "same_architecture m1 m2"
  shows "load_state_dict m2 (get_state_dict m1) = Inr m1"
proof -
  let ?xs = "named_parameters m1" and ?ys = "named_parameters m2"
  have d: "distinct (map fst ?xs)" using wf by (simp add: well_formed_def)
  have k: "map fst ?ys = map fst ?xs" using same_architecture_names [OF sa] .
  have len: "length ?ys = length ?xs" using k by (metis length_map)
  have keys: "list_all (\<lambda>k. k \<in> set (map fst ?ys)) (map fst ?xs)"
    by (simp add: k list_all_iff)
  have shapes: "list_all (\<lambda>(k, t). case map_of ?xs k of None \<Rightarrow> False | Some t' \<Rightarrow> dims t' = dims t) ?ys"
    unfolding list_all_length
  proof (intro allI impI)
    fix i assume i: "i < length ?ys"
    then have ix: "i < length ?xs" using len by simp
    have "fst (?ys ! i) = fst (?xs ! i)" using k i ix by (metis nth_map)
    moreover have "map_of ?xs (fst (?xs ! i)) = Some (snd (?xs ! i))" using map_of_nth [OF d ix] .
    moreover have "dims (snd (?xs ! i)) = dims (snd (?ys ! i))"
      using same_architecture_dims [OF sa i] .
    ultimately show "case ?ys ! i of (k, t) \<Rightarrow>
        (case map_of ?xs k of None \<Rightarrow> False | Some t' \<Rightarrow> dims t' = dims t)"
      by (simp add: case_prod_beta)
  qed
  have copy: "map (\<lambda>(k, t). (k, case map_of ?xs k of None \<Rightarrow> t | Some t' \<Rightarrow> t')) ?ys = ?xs"
    using copy_by_name [OF d k] .
  show ?thesis
    using keys shapes copy by (simp add: load_state_dict_def get_state_dict_def)
qed

text \<open>
  C2. Run in order, the saving and loading cells of notebook 4 end with a model whose
  parameters are those of the model that was saved, name by name, shape by shape and bit by
  bit, whenever the fresh model has the architecture of the saved one (the same parameter
  names and shapes); the fresh optimizer ends with the saved learning rate and state.
\<close>

theorem save_load_roundtrip:
  assumes "well_formed pretrained" and "same_architecture pretrained fresh"
  shows "notebook4 pretrained fresh os0 os1 fs0
           = Inr (pretrained,
                  optim_Adam (length (named_parameters pretrained)) (5 / 1000) os0)"
proof -
  have len: "length (named_parameters fresh) = length (named_parameters pretrained)"
    using same_architecture_names [OF assms(2)] by (metis length_map)
  show ?thesis
    using load_state_dict_roundtrip [OF assms] len
    by (simp add: notebook4_def save_model_cell_def save_state_cell_def load_state_cell_def
        torch_save_def torch_load_def checkpoint_record_def optimizer_state_dict_def
        optimizer_load_state_dict_def optim_Adam_def get_state_dict_def Let_def)
qed

theorem save_load_roundtrip_witness:
  "notebook4
     \<lparr>named_parameters = [(''weight'', \<lparr>dims = [2], storage = [0x3F800000, 0xBF800000]\<rparr>),
                          (''bias'', \<lparr>dims = [1], storage = [0x7FC00001]\<rparr>)]\<rparr>
     \<lparr>named_parameters = [(''weight'', \<lparr>dims = [2], storage = [0, 0]\<rparr>),
                          (''bias'', \<lparr>dims = [1], storage = [0]\<rparr>)]\<rparr>
     (30::nat) 0 Map.empty
   = Inr (\<lparr>named_parameters = [(''weight'', \<lparr>dims = [2], storage = [0x3F800000, 0xBF800000]\<rparr>),
                          (''bias'', \<lparr>dims = [1], storage = [0x7FC00001]\<rparr>)]\<rparr>,
          \<lparr>opt_rule = Adam, lr = 5 / 1000, n_params = 2, ostate = 30\<rparr>)"
  using save_load_roundtrip
    [of "\<lparr>named_parameters = [(''weight'', \<lparr>dims = [2], storage = [0x3F800000, 0xBF800000]\<rparr>),
                          (''bias'', \<lparr>dims = [1], storage = [0x7FC00001]\<rparr>)]\<rparr>"
        "\<lparr>named_parameters = [(''weight'', \<lparr>dims = [2], storage = [0, 0]\<rparr>),
                          (''bias'', \<lparr>dims = [1], storage = [0]\<rparr>)]\<rparr>"
        "30::nat" 0 Map.empty]
  by (simp add: well_formed_def same_architecture_def optim_Adam_def)

end
